theory Spec2Isabelle
  imports Main "HOL-Library.AList"
begin

section \<open>Python values and exceptions\<close>

text \<open>
  The script \<^verbatim>\<open>scripts/extract_builder_metadata.py\<close> works by reflection on Python
  objects. An object is modelled by what the script looks at: the name of its type, whether
  \<^verbatim>\<open>callable(o)\<close> holds, its truth value, and its attributes as an association list
  (\<^verbatim>\<open>hasattr\<close> is membership, \<^verbatim>\<open>getattr\<close> is lookup). The value of
  \<^verbatim>\<open>__closure__\<close> is a tuple of cells; a cell is empty (\<open>None\<close>) or holds a value.
  Values are finite trees, so an object graph with a cycle is not represented.
\<close>

datatype pyval =
    PNone
  | PBool bool
  | PInt int
  | PStr string
  | PList "pyval list"
  | PCells "pyval option list"
  | PObj (obj_type: string) (obj_callable: bool) (obj_truthy: bool)
         (obj_attrs: "(string \<times> pyval) list")

datatype exc_class =
    TypeError | ValueError | AttributeError | NameError | OSError | FileNotFoundError
  | ImportError | RuntimeError | SyntaxError

datatype pyexc = PyExc (exc_cls: exc_class) (exc_msg: string)

text \<open>\<^verbatim>\<open>except (A, B)\<close> catches instances of subclasses too; of the classes above only
  \<^verbatim>\<open>FileNotFoundError\<close> has a parent in the list (\<^verbatim>\<open>OSError\<close>).\<close>

fun subclass_of :: "exc_class \<Rightarrow> exc_class \<Rightarrow> bool" where
  "subclass_of FileNotFoundError OSError = True"
| "subclass_of c d = (c = d)"

definition caught_by :: "exc_class list \<Rightarrow> pyexc \<Rightarrow> bool" where
  "caught_by handlers e = list_ex (subclass_of (exc_cls e)) handlers"

fun py_getattr :: "pyval \<Rightarrow> string \<Rightarrow> pyval option" where
  "py_getattr (PObj t c b attrs) name = map_of attrs name"
| "py_getattr v name = None"

fun py_callable :: "pyval \<Rightarrow> bool" where
  "py_callable (PObj t c b attrs) = c"
| "py_callable v = False"

fun truthy :: "pyval \<Rightarrow> bool" where
  "truthy PNone = False"
| "truthy (PBool b) = b"
| "truthy (PInt i) = (i \<noteq> 0)"
| "truthy (PStr s) = (s \<noteq> [])"
| "truthy (PList xs) = (xs \<noteq> [])"
| "truthy (PCells cs) = (cs \<noteq> [])"
| "truthy (PObj t c b attrs) = b"

fun type_name :: "pyval \<Rightarrow> string" where
  "type_name PNone = ''NoneType''"
| "type_name (PBool b) = ''bool''"
| "type_name (PInt i) = ''int''"
| "type_name (PStr s) = ''str''"
| "type_name (PList xs) = ''list''"
| "type_name (PCells cs) = ''tuple''"
| "type_name (PObj t c b attrs) = t"

definition py_hasattr :: "pyval \<Rightarrow> string \<Rightarrow> bool" where
  "py_hasattr v name =
     (py_getattr v name \<noteq> None \<or> (name = ''__call__'' \<and> py_callable v))"

text \<open>\<^verbatim>\<open>callable(getattr(o, name, None))\<close>, guarded by \<^verbatim>\<open>hasattr(o, name)\<close>.\<close>

definition has_callable_attr :: "pyval \<Rightarrow> string \<Rightarrow> bool" where
  "has_callable_attr v name =
     (case py_getattr v name of None \<Rightarrow> False | Some w \<Rightarrow> py_callable w)"

section \<open>Strings\<close>

definition startswith :: "string \<Rightarrow> string \<Rightarrow> bool" where
  "startswith s p = (take (length p) s = p)"

text \<open>\<^verbatim>\<open>sub in s\<close> for strings.\<close>

fun str_contains :: "string \<Rightarrow> string \<Rightarrow> bool" where
  "str_contains sub [] = (sub = [])"
| "str_contains sub (c # cs) = (startswith (c # cs) sub \<or> str_contains sub cs)"

text \<open>\<^verbatim>\<open>s.replace(old, new)\<close> where \<open>old\<close> is a single character.\<close>

definition replace_char :: "char \<Rightarrow> string \<Rightarrow> string \<Rightarrow> string" where
  "replace_char old new s = concat (map (\<lambda>c. if c = old then new else [c]) s)"

section \<open>The decorator unwrapper\<close>

text \<open>
  The test on a closure cell's content (lines 247 to 252): \<^verbatim>\<open>original_fn.__name__\<close> is
  read without a guard, and \<^verbatim>\<open>startswith\<close> is a method of strings only.
  \<open>\<noteq>\<close> on values is structural.
\<close>

definition cell_name_test :: "pyval \<Rightarrow> pyval \<Rightarrow> pyexc + bool" where
  "cell_name_test original_fn cell_fn =
     (case py_getattr cell_fn ''__name__'' of
        None \<Rightarrow> Inr False
      | Some n \<Rightarrow>
          (case py_getattr original_fn ''__name__'' of
             None \<Rightarrow> Inl (PyExc AttributeError ''__name__'')
           | Some m \<Rightarrow>
               if n = m then Inr False
               else if n = PStr ''wrapped'' then Inr False
               else (case n of
                       PStr s \<Rightarrow> Inr (\<not> startswith s ''_'')
                     | _ \<Rightarrow> Inl (PyExc AttributeError ''startswith''))))"

text \<open>The \<^verbatim>\<open>for cell in original_fn.__closure__\<close> loop: \<open>Inr (Some f)\<close> is the
  \<^verbatim>\<open>break\<close> with a match, \<open>Inr None\<close> the end of the loop without one. Reading
  \<^verbatim>\<open>cell.cell_contents\<close> of an empty cell raises \<^verbatim>\<open>ValueError\<close>.\<close>

fun scan_cells :: "pyval \<Rightarrow> pyval option list \<Rightarrow> pyexc + pyval option" where
  "scan_cells original_fn [] = Inr None"
| "scan_cells original_fn (None # cells) = Inl (PyExc ValueError ''Cell is empty'')"
| "scan_cells original_fn (Some cell_fn # cells) =
     (if truthy cell_fn \<and> py_callable cell_fn then
        (case cell_name_test original_fn cell_fn of
           Inl e \<Rightarrow> Inl e
         | Inr True \<Rightarrow> Inr (Some cell_fn)
         | Inr False \<Rightarrow> scan_cells original_fn cells)
      else scan_cells original_fn cells)"

text \<open>Iterating a truthy \<^verbatim>\<open>__closure__\<close> that is not a tuple of cells: the characters of
  a string and the items of a list have no \<^verbatim>\<open>cell_contents\<close>; the other values are not
  iterable.\<close>

fun scan_closure :: "pyval \<Rightarrow> pyval \<Rightarrow> pyexc + pyval option" where
  "scan_closure original_fn (PCells cells) = scan_cells original_fn cells"
| "scan_closure original_fn (PStr s) = Inl (PyExc AttributeError ''cell_contents'')"
| "scan_closure original_fn (PList xs) = Inl (PyExc AttributeError ''cell_contents'')"
| "scan_closure original_fn v = Inl (PyExc TypeError ''object is not iterable'')"

text \<open>One pass through the body of the \<^verbatim>\<open>while\<close> loop (lines 201 to 261):
  \<open>Inr (Some f)\<close> when a rule unwrapped to \<open>f\<close> (\<^verbatim>\<open>continue\<close>), \<open>Inr None\<close> when
  nothing was unwrapped (\<^verbatim>\<open>break\<close>).\<close>

definition unwrap_step :: "pyval \<Rightarrow> pyexc + pyval option" where
  "unwrap_step original_fn =
     (if py_hasattr original_fn ''__wrapped__''
        then Inr (py_getattr original_fn ''__wrapped__'')
      else if py_hasattr original_fn ''fn'' \<and> has_callable_attr original_fn ''fn''
              \<and> (str_contains ''DictSupportingTensorOp'' (type_name original_fn)
                 \<or> py_hasattr original_fn ''__call__'')
        then Inr (py_getattr original_fn ''fn'')
      else if py_hasattr original_fn ''_wrapped_fn''
              \<and> has_callable_attr original_fn ''_wrapped_fn''
        then Inr (py_getattr original_fn ''_wrapped_fn'')
      else if py_hasattr original_fn ''func'' \<and> has_callable_attr original_fn ''func''
        then Inr (py_getattr original_fn ''func'')
      else (case py_getattr original_fn ''__closure__'' of
              None \<Rightarrow> Inr None
            | Some closure \<Rightarrow>
                if truthy closure then scan_closure original_fn closure else Inr None))"

definition max_unwrap_depth :: nat where
  "max_unwrap_depth = 10"

function unwrap_loop :: "nat \<Rightarrow> pyval \<Rightarrow> pyexc + pyval" where
  "unwrap_loop depth original_fn =
     (if depth < max_unwrap_depth then
        (case unwrap_step original_fn of
           Inl e \<Rightarrow> Inl e
         | Inr None \<Rightarrow> Inr original_fn
         | Inr (Some f) \<Rightarrow> unwrap_loop (depth + 1) f)
      else Inr original_fn)"
  by pat_completeness auto
termination
  by (relation "measure (\<lambda>(depth, original_fn). max_unwrap_depth - depth)") auto

definition unwrap_decorated_function :: "pyval \<Rightarrow> pyexc + pyval" where
  "unwrap_decorated_function fn = unwrap_loop 0 fn"

text \<open>Following the \<^verbatim>\<open>__wrapped__\<close> back-reference \<open>n\<close> times.\<close>

fun follow_wrapped :: "nat \<Rightarrow> pyval \<Rightarrow> pyval option" where
  "follow_wrapped 0 f = Some f"
| "follow_wrapped (Suc n) f =
     (case py_getattr f ''__wrapped__'' of
        None \<Rightarrow> None
      | Some g \<Rightarrow> follow_wrapped n g)"

section \<open>Type annotations\<close>

text \<open>
  An annotation as \<^verbatim>\<open>typing.get_origin\<close> and \<^verbatim>\<open>typing.get_args\<close> see it. The origin
  of \<^verbatim>\<open>Union[X, Y]\<close> and \<^verbatim>\<open>Optional[X]\<close> is \<^verbatim>\<open>typing.Union\<close>; the origin of
  \<^verbatim>\<open>X | Y\<close> is \<^verbatim>\<open>types.UnionType\<close>, a different object (Python 3.10 to 3.13).
  The arguments of \<^verbatim>\<open>Literal[...]\<close> are values. \<open>AEmpty\<close> is
  \<^verbatim>\<open>inspect.Parameter.empty\<close>.
\<close>

datatype origin = TypingLiteral | TypingUnion | TypesUnionType | AbcSequence | OtherOrigin string

datatype annotation =
    AEmpty
  | ANoneType
  | AClass string
  | AValue pyval
  | ASubscript origin "annotation list"

fun get_origin :: "annotation \<Rightarrow> origin option" where
  "get_origin (ASubscript orig as) = Some orig"
| "get_origin a = None"

fun get_args :: "annotation \<Rightarrow> annotation list" where
  "get_args (ASubscript orig as) = as"
| "get_args a = []"

text \<open>\<^verbatim>\<open>hasattr(arg, "__origin__") and hasattr(arg, "__args__")\<close>: generic aliases have
  both, a \<^verbatim>\<open>types.UnionType\<close> has no \<^verbatim>\<open>__origin__\<close>.\<close>

fun has_origin_and_args :: "annotation \<Rightarrow> bool" where
  "has_origin_and_args (ASubscript orig as) = (orig \<noteq> TypesUnionType)"
| "has_origin_and_args a = False"

fun origin_name :: "origin \<Rightarrow> string" where
  "origin_name TypingLiteral = ''Literal''"
| "origin_name TypingUnion = ''Union''"
| "origin_name TypesUnionType = ''UnionType''"
| "origin_name AbcSequence = ''Sequence''"
| "origin_name (OtherOrigin n) = n"

definition lower_char :: "char \<Rightarrow> char" where
  "lower_char c =
     (if 65 \<le> (of_char c :: nat) \<and> (of_char c :: nat) \<le> 90
      then char_of ((of_char c :: nat) + 32) else c)"

definition py_lower :: "string \<Rightarrow> string" where
  "py_lower s = map lower_char s"

section \<open>What the interpreter and the library provide\<close>

datatype param_kind =
  POSITIONAL_ONLY | POSITIONAL_OR_KEYWORD | VAR_POSITIONAL | KEYWORD_ONLY | VAR_KEYWORD

fun kind_name :: "param_kind \<Rightarrow> string" where
  "kind_name POSITIONAL_ONLY = ''POSITIONAL_ONLY''"
| "kind_name POSITIONAL_OR_KEYWORD = ''POSITIONAL_OR_KEYWORD''"
| "kind_name VAR_POSITIONAL = ''VAR_POSITIONAL''"
| "kind_name KEYWORD_ONLY = ''KEYWORD_ONLY''"
| "kind_name VAR_KEYWORD = ''VAR_KEYWORD''"

text \<open>An \<^verbatim>\<open>inspect.Parameter\<close>; the default \<open>None\<close> is
  \<^verbatim>\<open>inspect.Parameter.empty\<close>, \<open>Some v\<close> a declared default \<open>v\<close>.\<close>

record parameter =
  param_name :: string
  param_annotation :: annotation
  param_default :: "pyval option"
  param_kind :: param_kind

record signature =
  sig_parameters :: "parameter list"
  return_annotation :: annotation

text \<open>
  The script calls into \<^verbatim>\<open>inspect\<close>, \<^verbatim>\<open>typing\<close> and the builtins \<^verbatim>\<open>str\<close> and
  \<^verbatim>\<open>repr\<close>, and it imports two values from the introspected library. They are not part
  of the script and are taken as parameters. A path is the list of its components.
\<close>

record interp =
  inspect_signature :: "pyval \<Rightarrow> pyexc + signature"
  get_type_hints :: "pyval \<Rightarrow> pyexc + (string \<times> annotation) list"
  inspect_getfile :: "pyval \<Rightarrow> pyexc + string list"
  inspect_getdoc :: "pyval \<Rightarrow> string option"
  str_annotation :: "annotation \<Rightarrow> string"
  str_origin :: "origin \<Rightarrow> string"
  str_string_list :: "string list \<Rightarrow> string"
  str_annotation_list :: "annotation list \<Rightarrow> string"
  py_str :: "pyval \<Rightarrow> string"
  py_repr :: "pyval \<Rightarrow> string"
  zetta_utils_package_path :: "string list"
  DEFAULT_VERSION :: string

text \<open>Whether \<^verbatim>\<open>json.dumps(v)\<close> returns; otherwise it raises \<^verbatim>\<open>TypeError\<close>. A tuple is
  written as an array, and a closure cell is not serializable.\<close>

fun json_serializable :: "pyval \<Rightarrow> bool" where
  "json_serializable PNone = True"
| "json_serializable (PBool b) = True"
| "json_serializable (PInt i) = True"
| "json_serializable (PStr s) = True"
| "json_serializable (PList xs) = list_all json_serializable xs"
| "json_serializable (PCells cs) = (cs = [])"
| "json_serializable (PObj t c b attrs) = False"

fun json_serializable_literal :: "annotation \<Rightarrow> bool" where
  "json_serializable_literal (AValue v) = json_serializable v"
| "json_serializable_literal a = False"

section \<open>The type annotation classifier\<close>

text \<open>The literal values found in one member of a union (the body of the loop of
  \<^verbatim>\<open>_extract_literals_from_annotation\<close>, lines 92 to 108). An origin is a class or a
  special form and is truthy, so \<^verbatim>\<open>inner_origin and inner_args\<close> asks for arguments.\<close>

definition union_member_literals :: "annotation \<Rightarrow> annotation list" where
  "union_member_literals arg =
     (if get_origin arg = Some TypingLiteral then get_args arg
      else if \<not> has_origin_and_args arg then []
      else if \<not> (get_origin arg \<noteq> None \<and> get_args arg \<noteq> []) then []
      else concat (map (\<lambda>inner_arg.
                          if get_origin inner_arg = Some TypingLiteral
                          then get_args inner_arg else [])
                       (get_args arg)))"

definition extract_literals_from_annotation ::
    "origin option \<Rightarrow> annotation list \<Rightarrow> annotation list" where
  "extract_literals_from_annotation orig args =
     (if orig = Some TypingLiteral then args
      else if orig \<noteq> Some TypingUnion \<or> args = [] then []
      else concat (map union_member_literals args))"

definition sequence_names :: "string list" where
  "sequence_names = [''sequence'', ''list'', ''tuple'', ''iterable'']"

definition first_arg_str :: "interp \<Rightarrow> annotation list \<Rightarrow> string option" where
  "first_arg_str I args = (case args of [] \<Rightarrow> None | a # as \<Rightarrow> Some (str_annotation I a))"

definition check_sequence_type ::
    "interp \<Rightarrow> origin option \<Rightarrow> annotation list \<Rightarrow> bool \<times> string option" where
  "check_sequence_type I orig args =
     (case orig of
        None \<Rightarrow> (False, None)
      | Some ori \<Rightarrow>
          let by_name =
                (if list_ex (\<lambda>seq_name. str_contains seq_name (py_lower (origin_name ori)))
                      sequence_names
                 then (True, first_arg_str I args) else (False, None))
          in if ori = AbcSequence \<or> str_origin I ori = ''typing.Sequence''
             then (True, if args \<noteq> [] then first_arg_str I args else snd by_name)
             else by_name)"

record type_info =
  type_string :: string
  ti_origin :: "string option"
  ti_args :: "string list"
  literals :: "annotation list"
  is_union :: bool
  is_optional :: bool
  is_sequence :: bool
  inner_type :: "string option"

definition extract_type_info :: "interp \<Rightarrow> annotation \<Rightarrow> type_info" where
  "extract_type_info I annotation =
     (if annotation = AEmpty then
        \<lparr>type_string = ''Any'', ti_origin = None, ti_args = [], literals = [],
         is_union = False, is_optional = False, is_sequence = False, inner_type = None\<rparr>
      else
        let orig = get_origin annotation;
            args = get_args annotation;
            lits = extract_literals_from_annotation orig args;
            isu = (orig = Some TypingUnion);
            iso = (isu \<and> ANoneType \<in> set args);
            seq = check_sequence_type I orig args
        in \<lparr>type_string = str_annotation I annotation,
            ti_origin = map_option (str_origin I) orig,
            ti_args = map (str_annotation I) args,
            literals = lits,
            is_union = isu,
            is_optional = iso,
            is_sequence = fst seq,
            inner_type = snd seq\<rparr>)"

definition get_type_annotation_string :: "interp \<Rightarrow> annotation \<Rightarrow> string" where
  "get_type_annotation_string I annotation = type_string (extract_type_info I annotation)"

section \<open>Signature extraction\<close>

text \<open>The \<^verbatim>\<open>type_info\<close> entry of a parameter record: the classifier's record, or, when
  \<^verbatim>\<open>json.dumps\<close> refuses it, the dictionary of the string forms of its values
  (lines 318 to 320).\<close>

datatype type_info_entry =
    Rich type_info
  | Stringified "(string \<times> string option) list"

definition str_bool :: "bool \<Rightarrow> string" where
  "str_bool b = (if b then ''True'' else ''False'')"

definition stringify_type_info :: "interp \<Rightarrow> type_info \<Rightarrow> (string \<times> string option) list" where
  "stringify_type_info I ti =
     [(''type_string'', Some (type_string ti)),
      (''origin'', ti_origin ti),
      (''args'', Some (str_string_list I (ti_args ti))),
      (''literals'', Some (str_annotation_list I (literals ti))),
      (''is_union'', Some (str_bool (is_union ti))),
      (''is_optional'', Some (str_bool (is_optional ti))),
      (''is_sequence'', Some (str_bool (is_sequence ti))),
      (''inner_type'', inner_type ti)]"

text \<open>A parameter record (lines 291 to 308). \<open>pi_default_repr = None\<close> is a dictionary
  without the key \<^verbatim>\<open>default_repr\<close>.\<close>

record param_info =
  pi_name :: string
  pi_type :: string
  pi_type_info :: type_info_entry
  pi_required :: bool
  pi_default :: pyval
  pi_kind :: string
  pi_default_repr :: "string option"

definition make_param_info ::
    "interp \<Rightarrow> (string \<times> annotation) list \<Rightarrow> parameter \<Rightarrow> param_info" where
  "make_param_info I type_hints param =
     (let actual_annotation =
            (case map_of type_hints (param_name param) of
               Some a \<Rightarrow> a | None \<Rightarrow> param_annotation param);
          ti = extract_type_info I actual_annotation;
          dflt = (case param_default param of None \<Rightarrow> PNone | Some v \<Rightarrow> v);
          unserializable = (dflt \<noteq> PNone \<and> \<not> json_serializable dflt);
          dflt' = (if unserializable then PStr (py_str I dflt) else dflt)
      in \<lparr>pi_name = param_name param,
          pi_type = type_string ti,
          pi_type_info =
            (if list_all json_serializable_literal (literals ti) then Rich ti
             else Stringified (stringify_type_info I ti)),
          pi_required = (param_default param = None),
          pi_default = dflt',
          pi_kind = kind_name (param_kind param),
          pi_default_repr = (if unserializable then Some (py_repr I dflt') else None)\<rparr>)"

record signature_info =
  si_parameters :: "(string \<times> param_info) list"
  si_return_type :: string
  si_error :: "string option"

text \<open>The loop over \<^verbatim>\<open>sig.parameters.items()\<close>, writing
  \<^verbatim>\<open>parameters[param_name] = param_info\<close> into a dictionary.\<close>

definition collect_parameters ::
    "interp \<Rightarrow> (string \<times> annotation) list \<Rightarrow> parameter list \<Rightarrow> (string \<times> param_info) list" where
  "collect_parameters I type_hints params =
     foldl (\<lambda>parameters param.
              AList.update (param_name param) (make_param_info I type_hints param) parameters)
           [] params"

definition failed_signature :: "interp \<Rightarrow> pyexc \<Rightarrow> signature_info" where
  "failed_signature I e =
     \<lparr>si_parameters = [], si_return_type = ''Any'',
      si_error = Some (''Failed to extract signature: '' @ exc_msg e)\<rparr>"

text \<open>The outer handler of \<^verbatim>\<open>extract_function_signature\<close> (line 329): an exception of
  one of the three classes becomes the degraded record, any other propagates.\<close>

definition signature_handler :: "interp \<Rightarrow> pyexc \<Rightarrow> pyexc + signature_info" where
  "signature_handler I e =
     (if caught_by [TypeError, ValueError, AttributeError] e
      then Inr (failed_signature I e) else Inl e)"

definition extract_function_signature :: "interp \<Rightarrow> pyval \<Rightarrow> pyexc + signature_info" where
  "extract_function_signature I fn =
     (case unwrap_decorated_function fn of
        Inl e \<Rightarrow> signature_handler I e
      | Inr original_fn \<Rightarrow>
          (case inspect_signature I original_fn of
             Inl e \<Rightarrow> signature_handler I e
           | Inr sig \<Rightarrow>
               (case (case get_type_hints I original_fn of
                        Inl e \<Rightarrow>
                          if caught_by [TypeError, AttributeError, NameError] e
                          then Inr [] else Inl e
                      | Inr hints \<Rightarrow> Inr hints) of
                  Inl e \<Rightarrow> signature_handler I e
                | Inr type_hints \<Rightarrow>
                    Inr \<lparr>si_parameters = collect_parameters I type_hints (sig_parameters sig),
                         si_return_type =
                           get_type_annotation_string I (return_annotation sig),
                         si_error = None\<rparr>)))"

section \<open>Docstring parsing\<close>

text \<open>\<^verbatim>\<open>s.split(sep)\<close> for a one-character separator, and \<^verbatim>\<open>s.split(sep, k)\<close>,
  which splits at the first \<open>k\<close> separators only.\<close>

fun split_max :: "char \<Rightarrow> nat \<Rightarrow> string \<Rightarrow> string list" where
  "split_max sep 0 s = [s]"
| "split_max sep (Suc k) [] = [[]]"
| "split_max sep (Suc k) (c # cs) =
     (if c = sep then [] # split_max sep k cs
      else (case split_max sep (Suc k) cs of
              [] \<Rightarrow> [[c]]
            | w # ws \<Rightarrow> (c # w) # ws))"

definition split_char :: "char \<Rightarrow> string \<Rightarrow> string list" where
  "split_char sep s = split_max sep (length s) s"

text \<open>The ASCII white space that \<^verbatim>\<open>str.strip()\<close> removes: codes 9 to 13 and 28 to 32.\<close>

definition is_space :: "char \<Rightarrow> bool" where
  "is_space c = (let n = (of_char c :: nat) in (9 \<le> n \<and> n \<le> 13) \<or> (28 \<le> n \<and> n \<le> 32))"

definition strip :: "string \<Rightarrow> string" where
  "strip s = rev (dropWhile is_space (rev (dropWhile is_space s)))"

text \<open>\<^verbatim>\<open>s.replace(old, "")\<close> for a non-empty \<open>old\<close>: occurrences are removed from left
  to right, without overlap. The fuel is the length of the string.\<close>

fun remove_str_fuel :: "nat \<Rightarrow> string \<Rightarrow> string \<Rightarrow> string" where
  "remove_str_fuel 0 old s = s"
| "remove_str_fuel (Suc k) old [] = []"
| "remove_str_fuel (Suc k) old (c # cs) =
     (if old \<noteq> [] \<and> startswith (c # cs) old
      then remove_str_fuel k old (drop (length old) (c # cs))
      else c # remove_str_fuel k old cs)"

definition remove_str :: "string \<Rightarrow> string \<Rightarrow> string" where
  "remove_str old s = remove_str_fuel (length s) old s"

record docstring_info =
  doc_summary :: string
  doc_description :: string
  doc_parameters :: "(string \<times> string) list"

text \<open>The state of the loop over the lines after the first (lines 349 to 372).
  \<^verbatim>\<open>current_param\<close> is tested for truth: \<^verbatim>\<open>None\<close> and the empty name are false.\<close>

record doc_state =
  param_docs :: "(string \<times> string) list"
  current_param :: "string option"
  description_lines :: "string list"
  in_params_section :: bool

definition current_param_set :: "doc_state \<Rightarrow> bool" where
  "current_param_set st = (case current_param st of None \<Rightarrow> False | Some p \<Rightarrow> p \<noteq> [])"

definition doc_line :: "doc_state \<Rightarrow> string \<Rightarrow> doc_state" where
  "doc_line st raw =
     (let line = strip raw in
      if startswith line '':param '' then
        (let st1 = st\<lparr>in_params_section := True\<rparr>;
             parts = split_max CHR '':'' 2 line
         in if length parts \<ge> 3 then
              (let pname = strip (remove_str ''param '' (parts ! 1));
                   pdesc = strip (parts ! 2)
               in st1\<lparr>param_docs := AList.update pname pdesc (param_docs st1),
                       current_param := Some pname\<rparr>)
            else st1)
      else if startswith line '':'' \<and> current_param_set st then
        st\<lparr>current_param := None, in_params_section := False\<rparr>
      else if current_param_set st \<and> line \<noteq> [] then
        (case current_param st of
           None \<Rightarrow> st
         | Some p \<Rightarrow>
             (case map_of (param_docs st) p of
                None \<Rightarrow> st
              | Some d \<Rightarrow> st\<lparr>param_docs := AList.update p (d @ '' '' @ line) (param_docs st)\<rparr>))
      else if \<not> in_params_section st \<and> line \<noteq> [] \<and> \<not> startswith line '':'' then
        st\<lparr>description_lines := description_lines st @ [line]\<rparr>
      else st)"

text \<open>\<^verbatim>\<open>" ".join(xs)\<close>.\<close>

fun join_space :: "string list \<Rightarrow> string" where
  "join_space [] = []"
| "join_space [x] = x"
| "join_space (x # y # ys) = x @ '' '' @ join_space (y # ys)"

definition parse_docstring :: "string option \<Rightarrow> docstring_info" where
  "parse_docstring doc =
     (case doc of
        None \<Rightarrow> \<lparr>doc_summary = [], doc_description = [], doc_parameters = []\<rparr>
      | Some d \<Rightarrow>
          if d = [] then \<lparr>doc_summary = [], doc_description = [], doc_parameters = []\<rparr>
          else
            (let lines = split_char CHR 0x0A d;
                 st = foldl doc_line
                        \<lparr>param_docs = [], current_param = None, description_lines = [],
                         in_params_section = False\<rparr>
                        (tl lines)
             in \<lparr>doc_summary = (case lines of [] \<Rightarrow> [] | l # ls \<Rightarrow> l),
                 doc_description = join_space (description_lines st),
                 doc_parameters = param_docs st\<rparr>))"

text \<open>\<^verbatim>\<open>extract_docstring_info\<close> calls the unwrapper outside any \<^verbatim>\<open>try\<close>.\<close>

definition extract_docstring_info :: "interp \<Rightarrow> pyval \<Rightarrow> pyexc + docstring_info" where
  "extract_docstring_info I fn =
     (case unwrap_decorated_function fn of
        Inl e \<Rightarrow> Inl e
      | Inr original_fn \<Rightarrow> Inr (parse_docstring (inspect_getdoc I original_fn)))"

section \<open>The metadata collector\<close>

record registry_entry =
  fn :: pyval
  allow_partial :: bool
  allow_parallel :: bool
  version_spec :: string

text \<open>\<^verbatim>\<open>"/".join(parts)\<close>.\<close>

fun join_slash :: "string list \<Rightarrow> string" where
  "join_slash [] = []"
| "join_slash [x] = x"
| "join_slash (x # y # ys) = x @ ''/'' @ join_slash (y # ys)"

text \<open>\<^verbatim>\<open>str\<close> of an absolute path and of a relative path; the empty relative path
  is written as a dot.\<close>

definition str_abs_path :: "string list \<Rightarrow> string" where
  "str_abs_path parts = ''/'' @ join_slash parts"

definition str_rel_path :: "string list \<Rightarrow> string" where
  "str_rel_path parts = (if parts = [] then ''.'' else join_slash parts)"

text \<open>\<^verbatim>\<open>make_path_relative_to_package\<close> on absolute paths given by their components:
  the package path is the path itself or one of its parents exactly when it is a prefix of
  it, and the relative path starts at the package's parent directory.\<close>

definition make_path_relative_to_package :: "string list \<Rightarrow> string list \<Rightarrow> string" where
  "make_path_relative_to_package abs_path zetta_package_path =
     (if take (length zetta_package_path) abs_path = zetta_package_path
      then ''<zetta_utils>/'' @ str_rel_path (drop (length zetta_package_path - 1) abs_path)
      else ''<external>/'' @ str_abs_path abs_path)"

record version_info =
  function_name :: pyval
  vi_module_name :: pyval
  file_path :: string
  line_number :: pyval
  vi_allow_partial :: bool
  vi_allow_parallel :: bool
  vi_version_spec :: string
  vi_signature :: signature_info
  vi_documentation :: docstring_info
  callable_type :: string

record builder_info =
  bi_name :: string
  versions :: "version_info list"
  latest_version :: "version_info option"

record statistics =
  total_builders :: nat
  total_entries :: nat
  builders_with_partial :: nat
  builders_with_parallel :: nat

record metadata =
  builders :: "(string \<times> builder_info) list"
  stats :: statistics

text \<open>The file of the unwrapped function (lines 427 to 434).\<close>

definition lookup_file :: "interp \<Rightarrow> pyval \<Rightarrow> pyexc + string" where
  "lookup_file I original_fn =
     (case inspect_getfile I original_fn of
        Inl e \<Rightarrow> if caught_by [TypeError, OSError] e then Inr ''unknown'' else Inl e
      | Inr p \<Rightarrow> Inr (make_path_relative_to_package p (zetta_utils_package_path I)))"

text \<open>The first line of the unwrapped function (lines 436 to 443): a code object without
  \<^verbatim>\<open>co_firstlineno\<close> raises \<^verbatim>\<open>AttributeError\<close>, which the handler turns into 0.\<close>

definition lookup_line :: "pyval \<Rightarrow> pyval" where
  "lookup_line original_fn =
     (if py_hasattr original_fn ''__code__'' then
        (case py_getattr original_fn ''__code__'' of
           None \<Rightarrow> PInt 0
         | Some code \<Rightarrow>
             (case py_getattr code ''co_firstlineno'' of
                None \<Rightarrow> PInt 0
              | Some n \<Rightarrow> n))
      else PInt 0)"

text \<open>The body of the loop over the entries of one builder (lines 406 to 456), without
  the two counters.\<close>

definition extract_version_info :: "interp \<Rightarrow> registry_entry \<Rightarrow> pyexc + version_info" where
  "extract_version_info I entry =
     (case extract_function_signature I (fn entry) of
        Inl e \<Rightarrow> Inl e
      | Inr signature_info \<Rightarrow>
     (case extract_docstring_info I (fn entry) of
        Inl e \<Rightarrow> Inl e
      | Inr docstring_info \<Rightarrow>
     (case unwrap_decorated_function (fn entry) of
        Inl e \<Rightarrow> Inl e
      | Inr original_fn \<Rightarrow>
     (case lookup_file I original_fn of
        Inl e \<Rightarrow> Inl e
      | Inr file \<Rightarrow>
          Inr \<lparr>function_name =
                 (case py_getattr original_fn ''__name__'' of
                    Some n \<Rightarrow> n | None \<Rightarrow> PStr (type_name original_fn)),
               vi_module_name =
                 (case py_getattr original_fn ''__module__'' of
                    Some m \<Rightarrow> m | None \<Rightarrow> PStr ''unknown''),
               file_path = file,
               line_number = lookup_line original_fn,
               vi_allow_partial = allow_partial entry,
               vi_allow_parallel = allow_parallel entry,
               vi_version_spec = version_spec entry,
               vi_signature = signature_info,
               vi_documentation = docstring_info,
               callable_type = type_name (fn entry)\<rparr>))))"

text \<open>The inner loop: the versions of one builder, in order; the first exception ends it.\<close>

fun extract_versions :: "interp \<Rightarrow> registry_entry list \<Rightarrow> pyexc + version_info list" where
  "extract_versions I [] = Inr []"
| "extract_versions I (entry # entries) =
     (case extract_version_info I entry of
        Inl e \<Rightarrow> Inl e
      | Inr v \<Rightarrow>
          (case extract_versions I entries of
             Inl e \<Rightarrow> Inl e
           | Inr vs \<Rightarrow> Inr (v # vs)))"

text \<open>The state of the outer loop over \<^verbatim>\<open>REGISTRY.items()\<close>: the \<^verbatim>\<open>builders\<close>
  dictionary and the three running counters.\<close>

record collector =
  c_builders :: "(string \<times> builder_info) list"
  c_total_entries :: nat
  c_with_partial :: nat
  c_with_parallel :: nat

definition count_where :: "('a \<Rightarrow> bool) \<Rightarrow> 'a list \<Rightarrow> nat" where
  "count_where P xs = length (filter P xs)"

fun collect_builders ::
    "interp \<Rightarrow> collector \<Rightarrow> (string \<times> registry_entry list) list \<Rightarrow> pyexc + collector" where
  "collect_builders I acc [] = Inr acc"
| "collect_builders I acc ((builder_name, entries) # rest) =
     (case extract_versions I entries of
        Inl e \<Rightarrow> Inl e
      | Inr builder_versions \<Rightarrow>
          collect_builders I
            \<lparr>c_builders =
               AList.update builder_name
                 \<lparr>bi_name = builder_name, versions = builder_versions,
                  latest_version =
                    (case builder_versions of [] \<Rightarrow> None | v # vs \<Rightarrow> Some v)\<rparr>
                 (c_builders acc),
             c_total_entries = c_total_entries acc + length entries,
             c_with_partial = c_with_partial acc + count_where allow_partial entries,
             c_with_parallel = c_with_parallel acc + count_where allow_parallel entries\<rparr>
            rest)"

definition extract_builder_metadata ::
    "interp \<Rightarrow> (string \<times> registry_entry list) list \<Rightarrow> pyexc + metadata" where
  "extract_builder_metadata I REGISTRY =
     (case collect_builders I
             \<lparr>c_builders = [], c_total_entries = 0, c_with_partial = 0, c_with_parallel = 0\<rparr>
             REGISTRY of
        Inl e \<Rightarrow> Inl e
      | Inr acc \<Rightarrow>
          Inr \<lparr>builders = c_builders acc,
               stats = \<lparr>total_builders = length (c_builders acc),
                        total_entries = c_total_entries acc,
                        builders_with_partial = c_with_partial acc,
                        builders_with_parallel = c_with_parallel acc\<rparr>\<rparr>)"

section \<open>The extension format\<close>

definition version_spec_to_suffix :: "string \<Rightarrow> string" where
  "version_spec_to_suffix spec =
     (if spec = ''>=0.0.0'' \<or> startswith spec ''>='' then ''''
      else if startswith spec ''=='' then
        ''_v'' @ replace_char CHR ''.'' ''_'' (drop 2 spec)
      else if startswith spec ''<='' then
        ''_v'' @ replace_char CHR ''.'' ''_'' (drop 2 spec)
      else
        ''_v'' @ replace_char CHR ''='' ''eq''
                  (replace_char CHR ''<'' ''lt''
                    (replace_char CHR ''>'' ''gt''
                      (replace_char CHR ''.'' ''_'' spec))))"

text \<open>The dictionary built for each parameter (lines 522 to 529) has the six keys
  \<^verbatim>\<open>name\<close>, \<^verbatim>\<open>type\<close>, \<^verbatim>\<open>type_info\<close>, \<^verbatim>\<open>required\<close>, \<^verbatim>\<open>default\<close> and
  \<^verbatim>\<open>kind\<close>, and no key \<^verbatim>\<open>default_repr\<close>.\<close>

definition extension_param :: "param_info \<Rightarrow> param_info" where
  "extension_param param_info =
     \<lparr>pi_name = pi_name param_info,
      pi_type = pi_type param_info,
      pi_type_info = pi_type_info param_info,
      pi_required = pi_required param_info,
      pi_default = pi_default param_info,
      pi_kind = pi_kind param_info,
      pi_default_repr = None\<rparr>"

record extension_metadata =
  em_function_name :: pyval
  em_module :: pyval
  em_file :: string
  em_line_number :: pyval
  em_allow_partial :: bool
  em_allow_parallel :: bool
  em_documentation :: docstring_info

record extension_builder =
  eb_name :: string
  eb_parameters :: "param_info list"
  eb_version_spec :: string
  eb_metadata :: extension_metadata

record extension_format =
  ext_builders :: "extension_builder list"
  default_version :: string

definition extension_entry :: "string \<Rightarrow> version_info \<Rightarrow> extension_builder" where
  "extension_entry builder_name v =
     \<lparr>eb_name = builder_name @ version_spec_to_suffix (vi_version_spec v),
      eb_parameters = map (\<lambda>(k, param_info). extension_param param_info)
                          (si_parameters (vi_signature v)),
      eb_version_spec = vi_version_spec v,
      eb_metadata =
        \<lparr>em_function_name = function_name v,
         em_module = vi_module_name v,
         em_file = file_path v,
         em_line_number = line_number v,
         em_allow_partial = vi_allow_partial v,
         em_allow_parallel = vi_allow_parallel v,
         em_documentation = vi_documentation v\<rparr>\<rparr>"

definition convert_to_extension_format :: "interp \<Rightarrow> metadata \<Rightarrow> extension_format" where
  "convert_to_extension_format I md =
     \<lparr>ext_builders =
        concat (map (\<lambda>(builder_name, builder_info).
                       map (extension_entry builder_name) (versions builder_info))
                    (builders md)),
      default_version = DEFAULT_VERSION I\<rparr>"

section \<open>The entry point\<close>

text \<open>
  \<^verbatim>\<open>main\<close> writes two files into the output directory; a file is its name and the
  document handed to \<^verbatim>\<open>json.dump\<close>. The handler of \<^verbatim>\<open>main\<close> turns three exception
  classes into exit status 1; any other exception leaves \<^verbatim>\<open>main\<close> uncaught. The output
  directory is taken to be writable.
\<close>

datatype document =
    BuilderMetadata extension_format
  | PackageInfo string

datatype outcome =
    Written "(string \<times> document) list"
  | SysExit nat
  | Uncaught pyexc

definition main :: "interp \<Rightarrow> (string \<times> registry_entry list) list \<Rightarrow> outcome" where
  "main I REGISTRY =
     (case extract_builder_metadata I REGISTRY of
        Inl e \<Rightarrow>
          if caught_by [ImportError, RuntimeError, FileNotFoundError] e
          then SysExit 1 else Uncaught e
      | Inr md \<Rightarrow>
          Written
            [(''builder_metadata.json'', BuilderMetadata (convert_to_extension_format I md)),
             (''package_info.json'',
              PackageInfo (str_abs_path (zetta_utils_package_path I)))])"

section \<open>Sample inputs\<close>

definition plain_function :: "string \<Rightarrow> pyval" where
  "plain_function name =
     PObj ''function'' True True
       [(''__name__'', PStr name), (''__closure__'', PNone),
        (''__code__'', PObj ''code'' False True [(''co_firstlineno'', PInt 12)])]"

text \<open>The wrapper that \<^verbatim>\<open>functools.wraps\<close> leaves: it keeps the name of the wrapped
  function, refers to it through \<^verbatim>\<open>__wrapped__\<close> and captures it in its closure.\<close>

definition functools_wraps :: "pyval \<Rightarrow> pyval" where
  "functools_wraps f =
     PObj ''function'' True True
       [(''__name__'', PStr ''build''), (''__wrapped__'', f), (''__closure__'', PCells [Some f])]"

fun wrap_times :: "nat \<Rightarrow> pyval \<Rightarrow> pyval" where
  "wrap_times 0 f = f"
| "wrap_times (Suc n) f = functools_wraps (wrap_times n f)"

text \<open>A wrapper whose closure has a cell that was never filled.\<close>

definition wrapper_with_empty_cell :: pyval where
  "wrapper_with_empty_cell =
     PObj ''function'' True True
       [(''__name__'', PStr ''wrapper''), (''__closure__'', PCells [None])]"

text \<open>The annotations \<^verbatim>\<open>Literal["a", "b"]\<close>, \<^verbatim>\<open>int | None\<close> and
  \<^verbatim>\<open>Optional[int]\<close>.\<close>

definition literal_a_b :: annotation where
  "literal_a_b = ASubscript TypingLiteral [AValue (PStr ''a''), AValue (PStr ''b'')]"

definition int_or_none :: annotation where
  "int_or_none = ASubscript TypesUnionType [AClass ''int'', ANoneType]"

definition optional_int :: annotation where
  "optional_int = ASubscript TypingUnion [AClass ''int'', ANoneType]"

text \<open>A signature \<^verbatim>\<open>(mode: Literal["a", "b"], scale: int | None = None, *, op=Op())\<close>,
  where \<^verbatim>\<open>Op()\<close> is an instance of a user class.\<close>

definition sample_parameters :: "parameter list" where
  "sample_parameters =
     [\<lparr>param_name = ''mode'', param_annotation = literal_a_b,
       param_default = None, param_kind = POSITIONAL_OR_KEYWORD\<rparr>,
      \<lparr>param_name = ''scale'', param_annotation = int_or_none,
       param_default = Some PNone, param_kind = POSITIONAL_OR_KEYWORD\<rparr>,
      \<lparr>param_name = ''op'', param_annotation = AEmpty,
       param_default = Some (PObj ''Op'' False True []), param_kind = KEYWORD_ONLY\<rparr>]"

definition sample_interp :: interp where
  "sample_interp =
     \<lparr>inspect_signature =
        (\<lambda>f. if py_callable f
              then Inr \<lparr>sig_parameters = sample_parameters, return_annotation = AEmpty\<rparr>
              else Inl (PyExc TypeError ''not a callable object'')),
      get_type_hints = (\<lambda>f. Inr []),
      inspect_getfile =
        (\<lambda>f. if py_hasattr f ''__code__''
              then Inr [''site'', ''zetta_utils'', ''ops.py'']
              else Inl (PyExc TypeError ''not a module, class, method or function'')),
      inspect_getdoc = (\<lambda>f. None),
      str_annotation = (\<lambda>a. case a of AClass n \<Rightarrow> n | _ \<Rightarrow> ''typing''),
      str_origin = origin_name,
      str_string_list = join_space,
      str_annotation_list = (\<lambda>as. ''[...]''),
      py_str = (\<lambda>v. ''<'' @ type_name v @ '' object>''),
      py_repr = (\<lambda>v. case v of PStr s \<Rightarrow> [CHR 0x27] @ s @ [CHR 0x27]
                              | _ \<Rightarrow> ''<'' @ type_name v @ '' object>''),
      zetta_utils_package_path = [''site'', ''zetta_utils''],
      DEFAULT_VERSION = ''0.0.0''\<rparr>"



text \<open>An entry whose function is an object that is not callable and has no code.\<close>

definition opaque_entry :: registry_entry where
  "opaque_entry =
     \<lparr>fn = PObj ''Op'' False True [], allow_partial = False, allow_parallel = True,
      version_spec = ''==0.0.1''\<rparr>"

definition sample_entry :: "string \<Rightarrow> registry_entry" where
  "sample_entry spec =
     \<lparr>fn = functools_wraps (plain_function ''build''), allow_partial = True,
      allow_parallel = False, version_spec = spec\<rparr>"

definition sample_version :: "string \<Rightarrow> version_info" where
  "sample_version spec =
     \<lparr>function_name = PStr ''build'', vi_module_name = PStr ''zetta_utils.ops'',
      file_path = ''<zetta_utils>/zetta_utils/ops.py'', line_number = PInt 12,
      vi_allow_partial = True, vi_allow_parallel = False, vi_version_spec = spec,
      vi_signature = \<lparr>si_parameters = [], si_return_type = ''Any'', si_error = None\<rparr>,
      vi_documentation = \<lparr>doc_summary = [], doc_description = [], doc_parameters = []\<rparr>,
      callable_type = ''function''\<rparr>"

definition sample_metadata :: metadata where
  "sample_metadata =
     \<lparr>builders =
        [(''build'',
          \<lparr>bi_name = ''build'',
           versions = [sample_version ''>=0.0.0'', sample_version ''==1.2.3''],
           latest_version = Some (sample_version ''>=0.0.0'')\<rparr>)],
      stats = \<lparr>total_builders = 1, total_entries = 2, builders_with_partial = 2,
               builders_with_parallel = 0\<rparr>\<rparr>"


text \<open>The parameter \<^verbatim>\<open>op=Op()\<close> of the sample signature, and the content of
  \<^verbatim>\<open>builder_metadata.json\<close> in what \<^verbatim>\<open>main\<close> wrote.\<close>

definition op_parameter :: parameter where
  "op_parameter = \<lparr>param_name = ''op'', param_annotation = AEmpty,
       param_default = Some (PObj ''Op'' False True []), param_kind = KEYWORD_ONLY\<rparr>"

definition builder_metadata_json :: "outcome \<Rightarrow> extension_format option" where
  "builder_metadata_json out =
     (case out of
        Written files \<Rightarrow>
          (case map_of files ''builder_metadata.json'' of
             Some (BuilderMetadata d) \<Rightarrow> Some d
           | _ \<Rightarrow> None)
      | _ \<Rightarrow> None)"

definition emitted_defaults :: "extension_format \<Rightarrow> (string \<times> pyval \<times> string option) list list" where
  "emitted_defaults d =
     map (\<lambda>b. map (\<lambda>p. (pi_name p, pi_default p, pi_default_repr p)) (eb_parameters b))
         (ext_builders d)"

section \<open>Recoverable failures of one entry\<close>






text \<open>A registry with a working entry and an opaque one, and a registry whose only
  builder name has no entries.\<close>

definition sample_registry :: "(string \<times> registry_entry list) list" where
  "sample_registry = [(''build'', [sample_entry ''>=0.0.0'', opaque_entry])]"

definition name_without_entries :: "(string \<times> registry_entry list) list" where
  "name_without_entries = [(''build'', [])]"

text \<open>What a collected document records of the signature of each version: the names of
  its parameters and its error string.\<close>

definition signature_summary ::
    "pyexc + metadata \<Rightarrow> pyexc + (string list \<times> string option) list list" where
  "signature_summary r =
     map_sum id
       (\<lambda>md. map (\<lambda>b. map (\<lambda>v. (map fst (si_parameters (vi_signature v)),
                                    si_error (vi_signature v)))
                           (versions (snd b)))
                  (builders md))
       r"

section \<open>Two runs of the tool\<close>




section \<open>Verification\<close>

subsection \<open>The unwrapper follows wrapped back-references, at most ten\<close>

lemma unwrap_loop_follow:
  "follow_wrapped n f = Some g \<Longrightarrow> depth + n \<le> max_unwrap_depth \<Longrightarrow>
   unwrap_loop depth f = unwrap_loop (depth + n) g"
proof (induction n arbitrary: depth f)
  case 0
  then show ?case by simp
next
  case (Suc n)
  from Suc.prems(1) obtain w where w: "py_getattr f ''__wrapped__'' = Some w"
    and fw: "follow_wrapped n w = Some g"
    by (auto split: option.splits)
  from Suc.prems(2) have lt: "depth < max_unwrap_depth" by simp
  have step: "unwrap_step f = Inr (Some w)"
    using w by (simp add: unwrap_step_def py_hasattr_def)
  have "unwrap_loop depth f = unwrap_loop (depth + 1) w"
    using lt step by (subst unwrap_loop.simps) simp
  also have "\<dots> = unwrap_loop (depth + 1 + n) g"
    using Suc.IH [OF fw, of "depth + 1"] Suc.prems(2) by simp
  finally show ?case by simp
qed

lemma follow_wrapped_split:
  "follow_wrapped (a + b) f = Some g \<Longrightarrow>
   \<exists>h. follow_wrapped a f = Some h \<and> follow_wrapped b h = Some g"
  by (induction a arbitrary: f) (auto split: option.splits)

lemma unwrap_loop_at_cap: "unwrap_loop max_unwrap_depth f = Inr f"
  by (subst unwrap_loop.simps) simp

lemma unwrap_loop_no_rule:
  "unwrap_step g = Inr None \<Longrightarrow> unwrap_loop depth g = Inr g"
  by (subst unwrap_loop.simps) simp

text \<open>
  Claim C1. Let \<open>g\<close> be reached from \<open>f\<close> by following the \<^verbatim>\<open>__wrapped__\<close>
  back-reference \<open>n\<close> times. If \<open>n \<le> 10\<close> and no unwrap rule matches \<open>g\<close>, then
  \<^verbatim>\<open>unwrap_decorated_function(f)\<close> returns \<open>g\<close>. If \<open>n > 10\<close>, it returns the value
  reached after exactly 10 steps.
\<close>

theorem unwrap_wrapped_chain:
  assumes "follow_wrapped n f = Some g"
  shows "(n \<le> 10 \<and> unwrap_step g = Inr None \<longrightarrow> unwrap_decorated_function f = Inr g)
       \<and> (10 < n \<longrightarrow> (\<exists>h. follow_wrapped 10 f = Some h
                           \<and> unwrap_decorated_function f = Inr h))"
proof (intro conjI impI)
  assume a: "n \<le> 10 \<and> unwrap_step g = Inr None"
  then have "unwrap_loop 0 f = unwrap_loop (0 + n) g"
    using assms by (intro unwrap_loop_follow) (simp_all add: max_unwrap_depth_def)
  then show "unwrap_decorated_function f = Inr g"
    using a by (simp add: unwrap_decorated_function_def unwrap_loop_no_rule)
next
  assume "10 < n"
  then have "follow_wrapped (10 + (n - 10)) f = Some g"
    using assms by simp
  then obtain h where h: "follow_wrapped 10 f = Some h"
    using follow_wrapped_split by blast
  have "unwrap_loop 0 f = unwrap_loop (0 + 10) h"
    using h by (intro unwrap_loop_follow) (simp_all add: max_unwrap_depth_def)
  then have "unwrap_decorated_function f = Inr h"
    using unwrap_loop_at_cap [of h]
    by (simp add: unwrap_decorated_function_def max_unwrap_depth_def)
  with h show "\<exists>h. follow_wrapped 10 f = Some h \<and> unwrap_decorated_function f = Inr h"
    by blast
qed


lemma follow_wrapped_wrap_times:
  "follow_wrapped a (wrap_times (a + b) f) = Some (wrap_times b f)"
  by (induction a) (simp_all add: functools_wraps_def)

lemma unwrap_step_plain_function: "unwrap_step (plain_function name) = Inr None"
  by (simp add: unwrap_step_def plain_function_def py_hasattr_def has_callable_attr_def)

text \<open>Three and eleven \<^verbatim>\<open>functools.wraps\<close> layers around a plain function.\<close>

theorem unwrap_wrapped_chain_witness:
  "follow_wrapped 3 (wrap_times 3 (plain_function ''build'')) = Some (plain_function ''build'')
   \<and> unwrap_step (plain_function ''build'') = Inr None
   \<and> unwrap_decorated_function (wrap_times 3 (plain_function ''build''))
       = Inr (plain_function ''build'')
   \<and> follow_wrapped 11 (wrap_times 11 (plain_function ''build'')) = Some (plain_function ''build'')
   \<and> unwrap_decorated_function (wrap_times 11 (plain_function ''build''))
       = Inr (functools_wraps (plain_function ''build''))"
proof -
  let ?g = "plain_function ''build''"
  have a: "follow_wrapped 3 (wrap_times 3 ?g) = Some ?g"
    using follow_wrapped_wrap_times [of 3 0 ?g] by simp
  have b: "follow_wrapped 11 (wrap_times 11 ?g) = Some ?g"
    using follow_wrapped_wrap_times [of 11 0 ?g] by simp
  have c: "follow_wrapped 10 (wrap_times 11 ?g) = Some (functools_wraps ?g)"
    using follow_wrapped_wrap_times [of 10 1 ?g] by simp
  have n: "unwrap_step ?g = Inr None"
    by (rule unwrap_step_plain_function)
  from unwrap_wrapped_chain [OF a] n
  have d: "unwrap_decorated_function (wrap_times 3 ?g) = Inr ?g" by simp
  from unwrap_wrapped_chain [OF b] c
  have e: "unwrap_decorated_function (wrap_times 11 ?g) = Inr (functools_wraps ?g)" by auto
  from a b n d e show ?thesis by blast
qed


subsection \<open>An empty closure cell\<close>

text \<open>
  Claim C2 says that \<^verbatim>\<open>unwrap_decorated_function\<close> never raises, also when the closure
  has an empty cell. On a wrapper whose only closure cell is empty, the scan of the closure
  reads \<^verbatim>\<open>cell.cell_contents\<close> and the \<^verbatim>\<open>ValueError\<close> leaves the function.
\<close>

theorem unwrap_empty_cell_raises:
  "unwrap_decorated_function wrapper_with_empty_cell = Inl (PyExc ValueError ''Cell is empty'')"
  by (simp add: unwrap_decorated_function_def wrapper_with_empty_cell_def unwrap_step_def
      py_hasattr_def has_callable_attr_def max_unwrap_depth_def)

text \<open>A cell that holds a value without \<^verbatim>\<open>__name__\<close> is skipped, and a value that no
  rule matches is returned as it is.\<close>

lemma scan_cells_without_name:
  "py_getattr v ''__name__'' = None \<Longrightarrow>
   scan_cells original_fn (Some v # cells) = scan_cells original_fn cells"
  by (simp add: cell_name_test_def)

lemma unwrap_no_rule_unchanged:
  "unwrap_step f = Inr None \<Longrightarrow> unwrap_decorated_function f = Inr f"
  by (simp add: unwrap_decorated_function_def unwrap_loop_no_rule)

text \<open>With such a wrapper in the registry the exception leaves \<^verbatim>\<open>main\<close>:
  \<^verbatim>\<open>extract_function_signature\<close> catches it, \<^verbatim>\<open>extract_docstring_info\<close> calls the
  unwrapper again, outside any handler.\<close>

lemma empty_cell_aborts_main:
  "main sample_interp
     [(''build'', [\<lparr>fn = wrapper_with_empty_cell, allow_partial = True,
                    allow_parallel = True, version_spec = ''>=0.0.0''\<rparr>])]
   = Uncaught (PyExc ValueError ''Cell is empty'')"
  by code_simp

subsection \<open>Unions and literals in the classifier\<close>

text \<open>
  Claim C3 says that every union with \<^verbatim>\<open>None\<close>'s type, also one written with
  \<^verbatim>\<open>|\<close>, is classified as a union and as optional. For \<^verbatim>\<open>int | None\<close> the origin is
  \<^verbatim>\<open>types.UnionType\<close>, the test \<^verbatim>\<open>origin is typing.Union\<close> fails and both flags are
  false, although \<^verbatim>\<open>None\<close>'s type is among the arguments.
\<close>

theorem pipe_union_not_optional:
  "is_union (extract_type_info I int_or_none) = False
   \<and> is_optional (extract_type_info I int_or_none) = False
   \<and> ANoneType \<in> set (get_args int_or_none)"
  by (simp add: extract_type_info_def int_or_none_def Let_def)

text \<open>For \<^verbatim>\<open>typing.Union\<close> and \<^verbatim>\<open>typing.Optional\<close> both flags are set.\<close>

lemma typing_union_optional:
  "get_origin a = Some TypingUnion \<Longrightarrow> ANoneType \<in> set (get_args a) \<Longrightarrow>
   is_union (extract_type_info I a) \<and> is_optional (extract_type_info I a)"
  by (cases a) (auto simp: extract_type_info_def Let_def)

text \<open>
  Claim C4. For an annotation whose origin is \<^verbatim>\<open>typing.Literal\<close>, the \<^verbatim>\<open>literals\<close>
  field of the classifier's record is the annotation's argument list, in the same order.
\<close>

theorem literal_args_are_literals:
  "get_origin a = Some TypingLiteral \<Longrightarrow> literals (extract_type_info I a) = get_args a"
  by (cases a) (simp_all add: extract_type_info_def Let_def extract_literals_from_annotation_def)

theorem literal_args_are_literals_witness:
  "get_origin literal_a_b = Some TypingLiteral
   \<and> literals (extract_type_info sample_interp literal_a_b)
       = [AValue (PStr ''a''), AValue (PStr ''b'')]"
proof -
  have o: "get_origin literal_a_b = Some TypingLiteral"
    by (simp add: literal_a_b_def)
  from literal_args_are_literals [OF o, of sample_interp] o show ?thesis
    by (simp add: literal_a_b_def)
qed

subsection \<open>Version suffixes and exported names\<close>

lemma extension_entry_in_format:
  "(builder_name, builder_info) \<in> set (builders md) \<Longrightarrow> v \<in> set (versions builder_info) \<Longrightarrow>
   extension_entry builder_name v \<in> set (ext_builders (convert_to_extension_format I md))"
  by (force simp: convert_to_extension_format_def)

lemma suffix_exact: "version_spec_to_suffix ''==1.2.3'' = ''_v1_2_3''"
  by (simp add: version_spec_to_suffix_def startswith_def replace_char_def)

lemma suffix_lower_bound: "startswith spec ''>='' \<Longrightarrow> version_spec_to_suffix spec = []"
  by (simp add: version_spec_to_suffix_def)

text \<open>
  Claim C5. The suffix of the version specifier \<^verbatim>\<open>==1.2.3\<close> is \<^verbatim>\<open>_v1_2_3\<close>. Every
  version of a builder in the collected metadata has its entry in the extension format;
  with the specifier \<^verbatim>\<open>==1.2.3\<close> the entry is named by the builder name followed by
  \<^verbatim>\<open>_v1_2_3\<close>, and with a specifier that starts with \<^verbatim>\<open>>=\<close> the suffix is empty and
  the entry is named by the builder name alone.
\<close>

theorem version_suffix_names:
  assumes "(builder_name, builder_info) \<in> set (builders md)"
    and "v \<in> set (versions builder_info)"
  shows "version_spec_to_suffix ''==1.2.3'' = ''_v1_2_3''
       \<and> extension_entry builder_name v \<in> set (ext_builders (convert_to_extension_format I md))
       \<and> (vi_version_spec v = ''==1.2.3'' \<longrightarrow>
            eb_name (extension_entry builder_name v) = builder_name @ ''_v1_2_3'')
       \<and> (startswith (vi_version_spec v) ''>='' \<longrightarrow>
            version_spec_to_suffix (vi_version_spec v) = ''''
            \<and> eb_name (extension_entry builder_name v) = builder_name)"
proof -
  have name: "eb_name (extension_entry builder_name v)
                = builder_name @ version_spec_to_suffix (vi_version_spec v)"
    by (simp add: extension_entry_def)
  show ?thesis
    using extension_entry_in_format [OF assms, of I]
    by (simp add: name suffix_exact suffix_lower_bound)
qed

theorem version_suffix_names_witness:
  "map eb_name (ext_builders (convert_to_extension_format sample_interp sample_metadata))
     = [''build'', ''build_v1_2_3'']
   \<and> eb_name (extension_entry ''build'' (sample_version ''==1.2.3'')) = ''build_v1_2_3''
   \<and> startswith ''>=0.0.0'' ''>=''
   \<and> eb_name (extension_entry ''build'' (sample_version ''>=0.0.0'')) = ''build''"
proof -
  let ?bi = "\<lparr>bi_name = ''build'',
              versions = [sample_version ''>=0.0.0'', sample_version ''==1.2.3''],
              latest_version = Some (sample_version ''>=0.0.0'')\<rparr>"
  have b: "(''build'', ?bi) \<in> set (builders sample_metadata)"
    by (simp add: sample_metadata_def)
  have v1: "sample_version ''==1.2.3'' \<in> set (versions ?bi)" by simp
  have v2: "sample_version ''>=0.0.0'' \<in> set (versions ?bi)" by simp
  have s1: "vi_version_spec (sample_version ''==1.2.3'') = ''==1.2.3''"
    by (simp add: sample_version_def)
  have s2: "startswith (vi_version_spec (sample_version ''>=0.0.0'')) ''>=''"
    by (simp add: sample_version_def startswith_def)
  have s3: "startswith ''>=0.0.0'' ''>=''"
    by (simp add: startswith_def)
  have names: "map eb_name (ext_builders (convert_to_extension_format sample_interp sample_metadata))
     = [''build'', ''build_v1_2_3'']"
    by (simp add: convert_to_extension_format_def sample_metadata_def extension_entry_def
        sample_version_def version_spec_to_suffix_def startswith_def replace_char_def)
  from version_suffix_names [OF b v1, of sample_interp] s1
  have e1: "eb_name (extension_entry ''build'' (sample_version ''==1.2.3'')) = ''build_v1_2_3''"
    by simp
  from version_suffix_names [OF b v2, of sample_interp] s2
  have e2: "eb_name (extension_entry ''build'' (sample_version ''>=0.0.0'')) = ''build''"
    by simp
  from names e1 s3 e2 show ?thesis by simp
qed


subsection \<open>Parameter defaults\<close>

text \<open>No parameter record of the extension format has the key \<^verbatim>\<open>default_repr\<close>.\<close>

lemma extension_params_no_default_repr:
  "b \<in> set (ext_builders (convert_to_extension_format I md)) \<Longrightarrow>
   p \<in> set (eb_parameters b) \<Longrightarrow> pi_default_repr p = None"
  by (auto simp: convert_to_extension_format_def extension_entry_def extension_param_def)

lemma unserializable_default_record:
  "param_default p = Some d \<Longrightarrow> d \<noteq> PNone \<Longrightarrow> \<not> json_serializable d \<Longrightarrow>
   pi_default (make_param_info I hints p) = PStr (py_str I d)
   \<and> pi_default_repr (make_param_info I hints p) = Some (py_repr I (PStr (py_str I d)))"
  by (simp add: make_param_info_def Let_def)

text \<open>
  Claim C6 says that a parameter whose default fails JSON serialization has, in the
  extension-format output, the default's string form and a field \<^verbatim>\<open>default_repr\<close>. For
  the parameter \<^verbatim>\<open>op=Op()\<close>, \<^verbatim>\<open>extract_function_signature\<close> builds a record with the
  string form and with \<^verbatim>\<open>default_repr\<close> (the \<^verbatim>\<open>repr\<close> of that string form), and
  \<^verbatim>\<open>convert_to_extension_format\<close> copies six keys and leaves \<^verbatim>\<open>default_repr\<close> out: the
  written document has the string form and no \<^verbatim>\<open>default_repr\<close>.
\<close>

theorem default_repr_dropped:
  "pi_default (make_param_info sample_interp [] op_parameter) = PStr ''<Op object>''
   \<and> pi_default_repr (make_param_info sample_interp [] op_parameter)
       = Some (CHR 0x27 # ''<Op object>'' @ [CHR 0x27])
   \<and> pi_default_repr (extension_param (make_param_info sample_interp [] op_parameter)) = None
   \<and> map_option emitted_defaults
        (builder_metadata_json (main sample_interp [(''build'', [sample_entry ''>=0.0.0''])]))
       = Some [[(''mode'', PNone, None), (''scale'', PNone, None),
                (''op'', PStr ''<Op object>'', None)]]"
proof -
  have a: "pi_default (make_param_info sample_interp [] op_parameter) = PStr ''<Op object>''"
    by (simp add: make_param_info_def op_parameter_def sample_interp_def Let_def)
  have b: "pi_default_repr (make_param_info sample_interp [] op_parameter)
       = Some (CHR 0x27 # ''<Op object>'' @ [CHR 0x27])"
    by (simp add: make_param_info_def op_parameter_def sample_interp_def Let_def)
  have c: "pi_default_repr (extension_param (make_param_info sample_interp [] op_parameter))
       = None"
    by (simp add: extension_param_def)
  have d: "map_option emitted_defaults
        (builder_metadata_json (main sample_interp [(''build'', [sample_entry ''>=0.0.0''])]))
       = Some [[(''mode'', PNone, None), (''scale'', PNone, None),
                (''op'', PStr ''<Op object>'', None)]]"
    by code_simp
  from a b c d show ?thesis by simp
qed



subsection \<open>The collector on recoverable entries\<close>

lemma update_fresh: "k \<notin> fst ` set al \<Longrightarrow> AList.update k v al = al @ [(k, v)]"
  by (induction al) auto









lemma sample_registry_degraded:
  "signature_summary (extract_builder_metadata sample_interp sample_registry)
     = Inr [[([''mode'', ''scale'', ''op''], None),
             ([], Some ''Failed to extract signature: not a callable object'')]]"
  by code_simp


subsection \<open>A registry without entries\<close>

lemma collect_builders_empty:
  "distinct (map fst R) \<Longrightarrow> fst ` set R \<inter> fst ` set (c_builders acc) = {} \<Longrightarrow>
   \<forall>item \<in> set R. snd item = [] \<Longrightarrow>
   collect_builders I acc R =
     Inr (acc\<lparr>c_builders := c_builders acc
            @ map (\<lambda>item. (fst item, \<lparr>bi_name = fst item, versions = [],
                                      latest_version = None\<rparr>)) R\<rparr>)"
proof (induction R arbitrary: acc)
  case Nil
  then show ?case by simp
next
  case (Cons item R)
  obtain name where item: "item = (name, [])"
    using Cons.prems(3) by (cases item) auto
  let ?b = "\<lparr>bi_name = name, versions = [], latest_version = None\<rparr>"
  let ?acc = "acc\<lparr>c_builders := c_builders acc @ [(name, ?b)]\<rparr>"
  from Cons.prems(2) item have "name \<notin> fst ` set (c_builders acc)" by auto
  then have upd: "AList.update name ?b (c_builders acc) = c_builders acc @ [(name, ?b)]"
    by (rule update_fresh)
  have step: "collect_builders I acc (item # R) = collect_builders I ?acc R"
    using item upd by (cases acc) (simp add: count_where_def)
  have "collect_builders I ?acc R =
     Inr (?acc\<lparr>c_builders := c_builders ?acc
            @ map (\<lambda>item. (fst item, \<lparr>bi_name = fst item, versions = [],
                                      latest_version = None\<rparr>)) R\<rparr>)"
    using Cons.prems item by (intro Cons.IH) auto
  with step item show ?case by simp
qed

text \<open>
  Claim C8, amended. Let the registry have distinct builder names and no entries (every
  name has an empty list of entries). Then the document has the registry's names as its
  builders, \<^verbatim>\<open>total_builders\<close> is the number of names (zero for a registry without
  names), the other three totals are zero, the \<^verbatim>\<open>builders\<close> array of the extension
  format is empty, and \<^verbatim>\<open>main\<close> writes both files.
\<close>

theorem zero_entries_document:
  assumes "distinct (map fst REGISTRY)" and "\<forall>item \<in> set REGISTRY. snd item = []"
  shows "\<exists>md. extract_builder_metadata I REGISTRY = Inr md
             \<and> map fst (builders md) = map fst REGISTRY
             \<and> total_builders (stats md) = length REGISTRY
             \<and> total_entries (stats md) = 0
             \<and> builders_with_partial (stats md) = 0
             \<and> builders_with_parallel (stats md) = 0
             \<and> ext_builders (convert_to_extension_format I md) = []
             \<and> main I REGISTRY =
                 Written
                   [(''builder_metadata.json'',
                     BuilderMetadata \<lparr>ext_builders = [], default_version = DEFAULT_VERSION I\<rparr>),
                    (''package_info.json'',
                     PackageInfo (str_abs_path (zetta_utils_package_path I)))]"
proof -
  let ?acc = "\<lparr>c_builders = [], c_total_entries = 0, c_with_partial = 0, c_with_parallel = 0\<rparr>"
  let ?bs = "map (\<lambda>item. (fst item, \<lparr>bi_name = fst item, versions = [],
                                      latest_version = None\<rparr>)) REGISTRY"
  have "collect_builders I ?acc REGISTRY = Inr (?acc\<lparr>c_builders := c_builders ?acc @ ?bs\<rparr>)"
    using assms by (intro collect_builders_empty) auto
  then have md: "extract_builder_metadata I REGISTRY =
      Inr \<lparr>builders = ?bs,
           stats = \<lparr>total_builders = length REGISTRY, total_entries = 0,
                    builders_with_partial = 0, builders_with_parallel = 0\<rparr>\<rparr>"
    by (simp add: extract_builder_metadata_def)
  have ext: "convert_to_extension_format I
               \<lparr>builders = ?bs,
                stats = \<lparr>total_builders = length REGISTRY, total_entries = 0,
                    builders_with_partial = 0, builders_with_parallel = 0\<rparr>\<rparr>
             = \<lparr>ext_builders = [], default_version = DEFAULT_VERSION I\<rparr>"
    by (simp add: convert_to_extension_format_def comp_def)
  show ?thesis
    using md ext by (simp add: main_def comp_def)
qed

text \<open>A registry with one name and no entries, and the registry without names.\<close>

theorem zero_entries_document_witness:
  "distinct (map fst name_without_entries)
   \<and> concat (map snd name_without_entries) = []
   \<and> (\<exists>md. extract_builder_metadata sample_interp name_without_entries = Inr md
           \<and> total_builders (stats md) = 1 \<and> total_entries (stats md) = 0
           \<and> ext_builders (convert_to_extension_format sample_interp md) = [])
   \<and> main sample_interp name_without_entries =
        Written
          [(''builder_metadata.json'',
            BuilderMetadata \<lparr>ext_builders = [], default_version = ''0.0.0''\<rparr>),
           (''package_info.json'', PackageInfo ''/site/zetta_utils'')]
   \<and> (\<exists>md. extract_builder_metadata sample_interp [] = Inr md
           \<and> total_builders (stats md) = 0 \<and> total_entries (stats md) = 0)"
proof -
  have d: "distinct (map fst name_without_entries)"
    and e: "\<forall>item \<in> set name_without_entries. snd item = []"
    and c: "concat (map snd name_without_entries) = []"
    and l: "length name_without_entries = 1"
    by (simp_all add: name_without_entries_def)
  have i: "DEFAULT_VERSION sample_interp = ''0.0.0''"
    "str_abs_path (zetta_utils_package_path sample_interp) = ''/site/zetta_utils''"
    by (simp_all add: sample_interp_def str_abs_path_def)
  have d0: "distinct (map fst ([] :: (string \<times> registry_entry list) list))"
    and e0: "\<forall>item \<in> set ([] :: (string \<times> registry_entry list) list). snd item = []"
    by simp_all
  from zero_entries_document [OF d e, of sample_interp] l i
  have one: "(\<exists>md. extract_builder_metadata sample_interp name_without_entries = Inr md
           \<and> total_builders (stats md) = 1 \<and> total_entries (stats md) = 0
           \<and> ext_builders (convert_to_extension_format sample_interp md) = [])
     \<and> main sample_interp name_without_entries =
        Written
          [(''builder_metadata.json'',
            BuilderMetadata \<lparr>ext_builders = [], default_version = ''0.0.0''\<rparr>),
           (''package_info.json'', PackageInfo ''/site/zetta_utils'')]"
    by auto
  from zero_entries_document [OF d0 e0, of sample_interp]
  have zero: "\<exists>md. extract_builder_metadata sample_interp [] = Inr md
           \<and> total_builders (stats md) = 0 \<and> total_entries (stats md) = 0"
    by auto
  from d c one zero show ?thesis by blast
qed

text \<open>
  Claim C8 as stated fails: for a registry whose only name has no entries,
  \<^verbatim>\<open>total_builders\<close> is 1.
\<close>

theorem name_without_entries_counterexample:
  "concat (map snd name_without_entries) = []
   \<and> extract_builder_metadata sample_interp name_without_entries
     = Inr \<lparr>builders = [(''build'', \<lparr>bi_name = ''build'', versions = [], latest_version = None\<rparr>)],
            stats = \<lparr>total_builders = 1, total_entries = 0, builders_with_partial = 0,
                     builders_with_parallel = 0\<rparr>\<rparr>"
  by (simp add: name_without_entries_def extract_builder_metadata_def count_where_def)


subsection \<open>Two runs on an unchanged registry\<close>














end
